theory Spec2Isabelle
  imports Main "HOL-Library.AList" "HOL-Library.Sublist"
begin

section \<open>Python values used by the loggers and the environment dump\<close>

text \<open>
  The exceptions that the modelled functions can raise. \<open>OtherError\<close> stands for any
  exception of a collaborator that the source neither raises itself nor catches by name.
\<close>

datatype py_error =
    KeyError
  | TypeError
  | ValueError
  | UnboundLocalError
  | CalledProcessError
  | FileNotFoundError
  | IsADirectoryError
  | UnicodeDecodeError
  | OtherError

text \<open>
  A Python \<open>dict\<close> keeps its keys unique and iterates in insertion order: an association
  list whose keys are distinct. \<open>d[k] = v\<close> overwrites in place when \<open>k\<close> is present and
  appends otherwise (\<open>AList.update\<close>); \<open>d.pop(k)\<close> removes the entry and returns its
  value, and raises \<open>KeyError\<close> when \<open>k\<close> is absent.
\<close>

type_synonym ('k, 'v) pydict = "('k \<times> 'v) list"

definition keys :: "('k, 'v) pydict \<Rightarrow> 'k list" where
  "keys d = map fst d"

definition setitem :: "('k, 'v) pydict \<Rightarrow> 'k \<Rightarrow> 'v \<Rightarrow> ('k, 'v) pydict" where
  "setitem d k v = AList.update k v d"

definition pop :: "('k, 'v) pydict \<Rightarrow> 'k \<Rightarrow> py_error + ('v \<times> ('k, 'v) pydict)" where
  "pop d k = (case map_of d k of
                None \<Rightarrow> Inl KeyError
              | Some v \<Rightarrow> Inr (v, AList.delete k d))"

text \<open>\<open>s.endswith(t)\<close> and \<open>s.startswith(t)\<close> on strings.\<close>

definition endswith :: "string \<Rightarrow> string \<Rightarrow> bool" where
  "endswith s t = prefix (rev t) (rev s)"

definition startswith :: "string \<Rightarrow> string \<Rightarrow> bool" where
  "startswith s t = prefix t s"

section \<open>\<open>_prepare_metrics\<close> (catalyst/loggers/neptune.py)\<close>

text \<open>
  First loop: \<open>for k in list(processed_metrics.keys())\<close>. The keys are a snapshot taken
  before the loop, the dictionary changes underneath.
\<close>

fun pair_std :: "string list \<Rightarrow> (string, 'v) pydict \<Rightarrow> py_error + (string, 'v) pydict" where
  "pair_std [] d = Inr d"
| "pair_std (k # ks) d =
     (if endswith k ''/std'' then
        (let k_stripped = take (length k - 4) k;
             k_val = k_stripped @ ''/val''
         in if k_val \<notin> set (keys d) then
              (case pop d k_stripped of
                 Inl e \<Rightarrow> Inl e
               | Inr (v, d') \<Rightarrow> pair_std ks (setitem d' k_val v))
            else pair_std ks d)
      else pair_std ks d)"

text \<open>
  Second loop: the nested iteration over the keys, appending \<open>k\<close> to \<open>conflict_keys\<close>
  the first time some other key starts with it.
\<close>

definition conflict_inner :: "string \<Rightarrow> string list \<Rightarrow> string list \<Rightarrow> string list" where
  "conflict_inner k js conflict_keys =
     foldl (\<lambda>acc j. if startswith j k \<and> j \<noteq> k \<and> k \<notin> set acc then acc @ [k] else acc)
           conflict_keys js"

definition find_conflicts :: "string list \<Rightarrow> string list" where
  "find_conflicts ks = foldl (\<lambda>acc k. conflict_inner k ks acc) [] ks"

text \<open>Third loop: \<open>processed_metrics[f"{i}_val"] = processed_metrics.pop(i)\<close>.\<close>

fun rename_conflicts ::
  "string list \<Rightarrow> (string, 'v) pydict \<Rightarrow> py_error + (string, 'v) pydict" where
  "rename_conflicts [] d = Inr d"
| "rename_conflicts (i # is) d =
     (case pop d i of
        Inl e \<Rightarrow> Inl e
      | Inr (v, d') \<Rightarrow> rename_conflicts is (setitem d' (i @ ''_val'') v))"

definition prepare_metrics :: "(string, 'v) pydict \<Rightarrow> py_error + (string, 'v) pydict" where
  "prepare_metrics metrics =
     (case pair_std (keys metrics) metrics of
        Inl e \<Rightarrow> Inl e
      | Inr processed_metrics \<Rightarrow>
          rename_conflicts (find_conflicts (keys processed_metrics)) processed_metrics)"

section \<open>String formatting used for tracking paths\<close>

definition digit_char :: "nat \<Rightarrow> char" where
  "digit_char d = ''0123456789'' ! d"

fun digits :: "nat \<Rightarrow> string" where
  "digits n = (if n < 10 then [digit_char n] else digits (n div 10) @ [digit_char (n mod 10)])"

definition zero_pad :: "nat \<Rightarrow> string \<Rightarrow> string" where
  "zero_pad w s = replicate (w - length s) (CHR ''0'') @ s"

definition fmt_04d :: "int \<Rightarrow> string" where
  "fmt_04d n = (if n < 0 then CHR ''-'' # zero_pad 3 (digits (nat (- n)))
                else zero_pad 4 (digits (nat n)))"

fun join :: "string \<Rightarrow> string list \<Rightarrow> string" where
  "join sep [] = []"
| "join sep [x] = x"
| "join sep (x # y # ys) = x @ sep @ join sep (y # ys)"

section \<open>\<open>NeptuneLogger\<close> (catalyst/loggers/neptune.py)\<close>

text \<open>
  The fields of the runner and of the logger that the logging methods read. Names that
  start with an underscore in the source lose it here (\<open>_prepare_metrics\<close> is
  \<open>prepare_metrics\<close>); where that would clash with the public method, the helper is
  prefixed with \<open>private_\<close> (\<open>_log_metrics\<close> is \<open>private_log_metrics\<close>).
\<close>

record runner =
  epoch_step :: int
  loader_key :: string
  batch_step :: int
  sample_step :: int

record neptune_logger =
  base_namespace :: string
  log_batch_metrics :: bool
  log_epoch_metrics :: bool

text \<open>
  A value of the \<open>metrics\<close> dictionary: a number, or (at epoch scope, under the key
  \<open>_epoch_\<close>) a nested dictionary of numbers. Numbers are kept abstract (\<open>'v\<close>).
\<close>

datatype 'v mvalue = Num 'v | Group "(string \<times> 'v) list"

text \<open>
  The calls made on the backend run, in order:
  \<open>run[path][key].append(value=..., step=...)\<close>,
  \<open>run[path].append(File.as_image(image))\<close>,
  \<open>run[path].upload(File.as_pickle(artifact))\<close> and \<open>run[path].upload(path_to_artifact)\<close>.
  A method's outcome is the list of calls it made and the exception it raised, if any.
\<close>

datatype ('v, 'a) backend_call =
    AppendMetric string string 'v int
  | AppendImage string 'a
  | UploadPickle string 'a
  | UploadPath string string

type_synonym ('v, 'a) outcome = "('v, 'a) backend_call list \<times> py_error option"

text \<open>An expression statement: the value is computed and dropped.\<close>

definition discard :: "'x \<Rightarrow> 'y \<Rightarrow> 'y" where
  "discard x y = y"

text \<open>\<open>_log_metrics\<close>: \<open>float(value)\<close> raises \<open>TypeError\<close> on a dictionary.\<close>

fun private_log_metrics ::
  "(string, 'v mvalue) pydict \<Rightarrow> string \<Rightarrow> int \<Rightarrow> ('v, 'a) outcome" where
  "private_log_metrics [] neptune_path step = ([], None)"
| "private_log_metrics ((key, val) # rest) neptune_path step =
     (case val of
        Group g \<Rightarrow> ([], Some TypeError)
      | Num x \<Rightarrow>
          (case private_log_metrics rest neptune_path step of
             (ws, e) \<Rightarrow> (AppendMetric neptune_path key x step # ws, e)))"

definition private_log_image :: "'a \<Rightarrow> string \<Rightarrow> ('v, 'a) outcome" where
  "private_log_image img neptune_path = ([AppendImage neptune_path img], None)"

definition private_log_artifact ::
  "'a option \<Rightarrow> string option \<Rightarrow> string \<Rightarrow> ('v, 'a) outcome" where
  "private_log_artifact artifact path_to_artifact neptune_path =
     (case artifact of
        Some a \<Rightarrow> ([UploadPickle neptune_path a], None)
      | None \<Rightarrow>
          (case path_to_artifact of
             Some p \<Rightarrow> ([UploadPath neptune_path p], None)
           | None \<Rightarrow> ([], None)))"

text \<open>
  The local variable \<open>neptune_path\<close> of \<open>log_artifact\<close> after its \<open>if\<close>/\<open>elif\<close> chain.
  The chain has no \<open>else\<close>: \<open>None\<close> means that no branch assigned the variable.
\<close>

definition log_artifact_path ::
  "neptune_logger \<Rightarrow> string \<Rightarrow> runner \<Rightarrow> string option \<Rightarrow> string option" where
  "log_artifact_path self tag runner scope =
     (if scope = Some ''batch'' then
        Some (join ''/'' [base_namespace self, ''_artifacts'',
                          ''epoch-'' @ fmt_04d (epoch_step runner),
                          ''loader-'' @ loader_key runner,
                          ''batch-'' @ fmt_04d (batch_step runner),
                          tag])
      else if scope = Some ''loader'' then
        Some (join ''/'' [base_namespace self, ''_artifacts'',
                          ''epoch-'' @ fmt_04d (epoch_step runner),
                          ''loader-'' @ loader_key runner,
                          tag])
      else if scope = Some ''epoch'' then
        Some (join ''/'' [base_namespace self, ''_artifacts'',
                          ''epoch-'' @ fmt_04d (epoch_step runner),
                          tag])
      else if scope = Some ''experiment'' \<or> scope = None then
        Some (join ''/'' [base_namespace self, ''_artifacts'', tag])
      else None)"

text \<open>
  \<open>log_artifact\<close>. The first statement builds a \<open>ValueError\<close> and drops it (there is no
  \<open>raise\<close>). Reading \<open>neptune_path\<close> when no branch assigned it raises
  \<open>UnboundLocalError\<close>, before \<open>_log_artifact\<close> is called.
\<close>

definition log_artifact ::
  "neptune_logger \<Rightarrow> string \<Rightarrow> runner \<Rightarrow> 'a option \<Rightarrow> string option \<Rightarrow> string option
     \<Rightarrow> ('v, 'a) outcome" where
  "log_artifact self tag runner artifact path_to_artifact scope =
     discard (if artifact \<noteq> None \<and> path_to_artifact \<noteq> None then Some ValueError else None)
       (case log_artifact_path self tag runner scope of
          None \<Rightarrow> ([], Some UnboundLocalError)
        | Some neptune_path \<Rightarrow> private_log_artifact artifact path_to_artifact neptune_path)"

text \<open>The local variable \<open>log_path\<close> of \<open>log_image\<close> after its \<open>if\<close>/\<open>elif\<close> chain.\<close>

definition log_image_path ::
  "neptune_logger \<Rightarrow> string \<Rightarrow> runner \<Rightarrow> string option \<Rightarrow> string option" where
  "log_image_path self tag runner scope =
     (if scope = Some ''batch'' \<or> scope = Some ''loader'' then
        Some (join ''/'' [base_namespace self, ''_images'',
                          ''epoch-'' @ fmt_04d (epoch_step runner),
                          ''loader-'' @ loader_key runner,
                          tag])
      else if scope = Some ''epoch'' then
        Some (join ''/'' [base_namespace self, ''_images'',
                          ''epoch-'' @ fmt_04d (epoch_step runner),
                          tag])
      else if scope = Some ''experiment'' \<or> scope = None then
        Some (join ''/'' [base_namespace self, ''_images'', tag])
      else None)"

definition log_image ::
  "neptune_logger \<Rightarrow> string \<Rightarrow> 'a \<Rightarrow> runner \<Rightarrow> string option \<Rightarrow> ('v, 'a) outcome" where
  "log_image self tag img runner scope =
     (case log_image_path self tag runner scope of
        None \<Rightarrow> ([], Some UnboundLocalError)
      | Some log_path \<Rightarrow> private_log_image img log_path)"

text \<open>
  \<open>log_metrics\<close>. In the first three branches \<open>scope\<close> is the string just compared, so
  the path is built with that literal. \<open>metrics["_epoch_"]\<close> raises \<open>KeyError\<close> when the
  key is missing, and \<open>dict(...)\<close> of a number raises \<open>TypeError\<close>.
\<close>

definition log_metrics ::
  "neptune_logger \<Rightarrow> (string, 'v mvalue) pydict \<Rightarrow> string option \<Rightarrow> runner
     \<Rightarrow> ('v, 'a) outcome" where
  "log_metrics self metrics scope runner =
     (if scope = Some ''batch'' \<and> log_batch_metrics self then
        private_log_metrics metrics
          (join ''/'' [base_namespace self, loader_key runner, ''batch''])
          (sample_step runner)
      else if scope = Some ''loader'' \<and> log_epoch_metrics self then
        (case prepare_metrics metrics of
           Inl e \<Rightarrow> ([], Some e)
         | Inr prepared \<Rightarrow>
             private_log_metrics prepared
               (join ''/'' [base_namespace self, loader_key runner, ''loader''])
               (epoch_step runner))
      else if scope = Some ''epoch'' \<and> log_epoch_metrics self then
        (case map_of metrics ''_epoch_'' of
           None \<Rightarrow> ([], Some KeyError)
         | Some (Num x) \<Rightarrow> ([], Some TypeError)
         | Some (Group g) \<Rightarrow>
             (case prepare_metrics g of
                Inl e \<Rightarrow> ([], Some e)
              | Inr prepared_metrics \<Rightarrow>
                  if prepared_metrics \<noteq> [] then
                    private_log_metrics (map (\<lambda>(k, x). (k, Num x)) prepared_metrics)
                      (join ''/'' [base_namespace self, ''epoch''])
                      (epoch_step runner)
                  else ([], None)))
      else if scope = Some ''experiment'' \<or> scope = None then
        private_log_metrics metrics (base_namespace self) 0
      else ([], None))"

section \<open>Environment dump (catalyst/utils/sys.py)\<close>

text \<open>
  The values stored in the environment dictionary: text, raw bytes (the output of a
  subprocess) and a nested dictionary (the \<open>git\<close> entry).
\<close>

datatype pyval = PStr string | PBytes string | PDict "(string \<times> pyval) list"

text \<open>The outcome of \<open>subprocess.check_output\<close>: the captured bytes, or an exception.\<close>

datatype proc_result = Output string | Raises py_error

text \<open>
  What the functions read from the process and the machine they run on:
  \<open>sys.version\<close>, \<open>os.environ\<close>, \<open>get_utcnow_time()\<close>, the first five fields of
  \<open>platform.uname()\<close>, the outcome of \<open>subprocess.check_output\<close> for a command (the flag
  is \<open>shell\<close>), \<open>bytes.decode("UTF-8")\<close> (\<open>None\<close> is \<open>UnicodeDecodeError\<close>), whether
  \<open>sys.prefix/conda-meta\<close> exists, \<open>IS_HYDRA_AVAILABLE\<close>, and the outcome of reading the
  source of \<open>shutil.copyfile\<close>. Writes into the configs directory are taken to succeed.
\<close>

record host =
  sys_version :: string
  environ :: "(string \<times> string) list"
  utcnow_time :: string
  uname_system :: string
  uname_node :: string
  uname_release :: string
  uname_version :: string
  uname_machine :: string
  check_output :: "bool \<Rightarrow> string list \<Rightarrow> proc_result"
  utf8_decode :: "string \<Rightarrow> string option"
  conda_meta_exists :: bool
  is_hydra_available :: bool
  copyfile_source :: "string \<Rightarrow> py_error + string"

text \<open>\<open>os.environ.get(k, default)\<close>.\<close>

definition environ_get :: "host \<Rightarrow> string \<Rightarrow> string \<Rightarrow> string" where
  "environ_get h k dflt = (case map_of (environ h) k of None \<Rightarrow> dflt | Some v \<Rightarrow> v)"

text \<open>
  \<open>str.split()\<close> with no argument splits on runs of whitespace; \<open>bytes.strip()\<close> removes
  ASCII whitespace at both ends. Characters are the code points below 256.
\<close>

definition is_str_space :: "char \<Rightarrow> bool" where
  "is_str_space c \<longleftrightarrow>
     c \<in> set [CHR 0x09, CHR 0x0A, CHR 0x0B, CHR 0x0C, CHR 0x0D,
              CHR 0x1C, CHR 0x1D, CHR 0x1E, CHR 0x1F, CHR 0x20, CHR 0x85, CHR 0xA0]"

definition is_bytes_space :: "char \<Rightarrow> bool" where
  "is_bytes_space c \<longleftrightarrow> c \<in> set [CHR 0x20, CHR 0x09, CHR 0x0A, CHR 0x0D, CHR 0x0B, CHR 0x0C]"

fun split_aux :: "string \<Rightarrow> string \<Rightarrow> string list" where
  "split_aux [] cur = (if cur = [] then [] else [cur])"
| "split_aux (c # cs) cur =
     (if is_str_space c then (if cur = [] then split_aux cs [] else cur # split_aux cs [])
      else split_aux cs (cur @ [c]))"

definition str_split :: "string \<Rightarrow> string list" where
  "str_split s = split_aux s []"

definition bytes_strip :: "string \<Rightarrow> string" where
  "bytes_strip b = rev (dropWhile is_bytes_space (rev (dropWhile is_bytes_space b)))"

text \<open>\<open>_decode_dict\<close>: bytes values are decoded, every other value is kept.\<close>

fun decode_value :: "(string \<Rightarrow> string option) \<Rightarrow> pyval \<Rightarrow> py_error + pyval" where
  "decode_value dec (PBytes b) =
     (case dec b of None \<Rightarrow> Inl UnicodeDecodeError | Some s \<Rightarrow> Inr (PStr s))"
| "decode_value dec (PStr s) = Inr (PStr s)"
| "decode_value dec (PDict d) = Inr (PDict d)"

fun decode_dict ::
  "(string \<Rightarrow> string option) \<Rightarrow> (string, pyval) pydict \<Rightarrow> py_error + (string, pyval) pydict" where
  "decode_dict dec [] = Inr []"
| "decode_dict dec ((k, v) # rest) =
     (case decode_value dec v of
        Inl e \<Rightarrow> Inl e
      | Inr v' \<Rightarrow>
          (case decode_dict dec rest of
             Inl e \<Rightarrow> Inl e
           | Inr rest' \<Rightarrow> Inr ((k, v') # rest')))"

text \<open>
  The body of the \<open>try\<close> block of \<open>_get_environment_vars\<close>, up to \<open>_decode_dict(git)\<close>:
  the three \<open>git rev-parse\<close> queries, the first one stripped and decoded at once.
\<close>

definition git_info :: "host \<Rightarrow> py_error + (string, pyval) pydict" where
  "git_info h =
     (case check_output h True (str_split ''git rev-parse --abbrev-ref HEAD'') of
        Raises e \<Rightarrow> Inl e
      | Output b \<Rightarrow>
     (case utf8_decode h (bytes_strip b) of
        None \<Rightarrow> Inl UnicodeDecodeError
      | Some git_branch \<Rightarrow>
     (case check_output h True (str_split ''git rev-parse HEAD'') of
        Raises e \<Rightarrow> Inl e
      | Output git_local_commit \<Rightarrow>
     (case check_output h True (str_split (''git rev-parse origin/'' @ git_branch)) of
        Raises e \<Rightarrow> Inl e
      | Output git_origin_commit \<Rightarrow>
          decode_dict (utf8_decode h)
            [(''branch'', PStr git_branch),
             (''local_commit'', PBytes git_local_commit),
             (''origin_commit'', PBytes git_origin_commit)]))))"

text \<open>
  \<open>_get_environment_vars\<close>. The \<open>except\<close> clause catches \<open>CalledProcessError\<close> and
  \<open>FileNotFoundError\<close> only; any other exception of the \<open>try\<close> block propagates.
\<close>

definition get_environment_vars :: "host \<Rightarrow> py_error + (string, pyval) pydict" where
  "get_environment_vars h =
     (let result =
            [(''python_version'', PStr (sys_version h)),
             (''conda_environment'', PStr (environ_get h ''CONDA_DEFAULT_ENV'' '''')),
             (''creation_time'', PStr (utcnow_time h)),
             (''sysname'', PStr (uname_system h)),
             (''nodename'', PStr (uname_node h)),
             (''release'', PStr (uname_release h)),
             (''version'', PStr (uname_version h)),
             (''architecture'', PStr (uname_machine h)),
             (''user'', PStr (environ_get h ''USER'' '''')),
             (''path'', PStr (environ_get h ''PWD'' ''''))]
      in case git_info h of
           Inr git \<Rightarrow> decode_dict (utf8_decode h) (setitem result ''git'' (PDict git))
         | Inl e \<Rightarrow>
             if e = CalledProcessError \<or> e = FileNotFoundError
             then decode_dict (utf8_decode h) result
             else Inl e)"

text \<open>
  \<open>_list_pip_packages\<close> and \<open>_list_conda_packages\<close>: the listing and the warnings issued.
  \<open>except Exception\<close> catches every failure, of the command and of the decoding.
\<close>

definition pip_warning :: string where
  "pip_warning = ''Failed to freeze pip packages. Continue run without pip packages dumping.''"

definition conda_warning :: string where
  "conda_warning = ''Running from conda env, but failed to list conda packages. Continue run without conda packages dumping.''"

definition list_pip_packages :: "host \<Rightarrow> string \<times> string list" where
  "list_pip_packages h =
     (case check_output h False (str_split ''pip freeze'') of
        Raises e \<Rightarrow> ('''', [pip_warning])
      | Output b \<Rightarrow>
          (case utf8_decode h (bytes_strip b) of
             None \<Rightarrow> ('''', [pip_warning])
           | Some s \<Rightarrow> (s, [])))"

definition list_conda_packages :: "host \<Rightarrow> string \<times> string list" where
  "list_conda_packages h =
     (if conda_meta_exists h then
        (case check_output h False (str_split ''conda list --export'') of
           Raises e \<Rightarrow> ('''', [conda_warning])
         | Output b \<Rightarrow>
             (case utf8_decode h (bytes_strip b) of
                None \<Rightarrow> ('''', [conda_warning])
              | Some s \<Rightarrow> (s, [])))
      else ('''', []))"

text \<open>
  The \<open>config\<close> argument of \<open>dump_environment\<close>: \<open>None\<close>, an \<open>omegaconf.DictConfig\<close>
  (\<open>'c\<close> is then its resolved container) or any other configuration object.
\<close>

datatype 'c config_arg = NoConfig | PlainConfig 'c | DictConfig 'c

text \<open>
  The content of a file of the configs directory: text written as it is, or what a
  serialiser that is not part of this module produced (\<open>OmegaConf.to_yaml\<close>,
  \<open>save_config\<close>).
\<close>

datatype 'c doc =
    Text string
  | YamlOf 'c
  | SavedConfig "'c config_arg"
  | SavedEnvironment "(string \<times> pyval) list"

text \<open>
  The text of a \<open>writer.add_text\<close> call: a string, or
  \<open>json.dumps(x, indent=2, ensure_ascii=False).replace("\n", "\n\n")\<close> of the
  configuration or of the environment.
\<close>

datatype 'c tb_text =
    TbText string
  | TbConfigJson "'c config_arg"
  | TbEnvironmentJson "(string \<times> pyval) list"

text \<open>
  The state that \<open>dump_environment\<close> changes: the regular files of \<open>logdir/configs\<close> by
  name, the \<open>(tag, text, step)\<close> records given to the summary writer, and the warnings.
\<close>

record 'c dump_state =
  files :: "string \<rightharpoonup> 'c doc"
  tb_text :: "(string \<times> 'c tb_text \<times> int) list"
  warnings :: "string list"

text \<open>\<open>s.replace("\n", "\n\n")\<close>.\<close>

fun replace_nl :: "string \<Rightarrow> string" where
  "replace_nl [] = []"
| "replace_nl (c # cs) =
     (if c = CHR 0x0A then CHR 0x0A # CHR 0x0A # replace_nl cs else c # replace_nl cs)"

text \<open>
  \<open>Path(p).name\<close> on a POSIX path: the last component, where empty components and
  \<open>.\<close> do not count; the empty string when there is none.
\<close>

fun split_on :: "char \<Rightarrow> string \<Rightarrow> string \<Rightarrow> string list" where
  "split_on sep [] cur = [cur]"
| "split_on sep (c # cs) cur =
     (if c = sep then cur # split_on sep cs [] else split_on sep cs (cur @ [c]))"

definition path_name :: "string \<Rightarrow> string" where
  "path_name p =
     (case rev (filter (\<lambda>s. s \<noteq> [] \<and> s \<noteq> ''.'') (split_on (CHR ''/'') p [])) of
        [] \<Rightarrow> []
      | x # _ \<Rightarrow> x)"

text \<open>An element of \<open>configs_path\<close>: a string, or something else (which is skipped).\<close>

datatype path_arg = StrPath string | NotStr

fun str_paths :: "path_arg list \<Rightarrow> string list" where
  "str_paths [] = []"
| "str_paths (StrPath p # ps) = p # str_paths ps"
| "str_paths (NotStr # ps) = str_paths ps"

text \<open>
  The loop \<open>for path in configs_path: shutil.copyfile(path, config_dir / path.name)\<close>.
  A path without a name makes the destination the directory itself.
\<close>

fun copy_configs ::
  "host \<Rightarrow> string list \<Rightarrow> (string \<rightharpoonup> 'c doc) \<Rightarrow> py_error + (string \<rightharpoonup> 'c doc)" where
  "copy_configs h [] fs = Inr fs"
| "copy_configs h (p # ps) fs =
     (case copyfile_source h p of
        Inl e \<Rightarrow> Inl e
      | Inr content \<Rightarrow>
          if path_name p = [] then Inl IsADirectoryError
          else copy_configs h ps (fs(path_name p \<mapsto> Text content)))"

text \<open>
  \<open>dump_environment\<close>, statement by statement: \<open>config.yaml\<close> for a \<open>DictConfig\<close>, the
  environment, \<open>_environment.json\<close>, \<open>_config.json\<close>, the pip listing (written without a
  test), the conda listing (written when non-empty), the copies of the configuration
  files, and the text records of the summary writer. When an exception propagates, the
  result is the exception.
\<close>

definition dump_environment ::
  "host \<Rightarrow> string \<Rightarrow> 'c config_arg \<Rightarrow> path_arg list option \<Rightarrow> 'c dump_state
     \<Rightarrow> py_error + 'c dump_state" where
  "dump_environment h logdir config configs_path st =
     (let paths = str_paths (case configs_path of None \<Rightarrow> [] | Some ps \<Rightarrow> ps);
          fs1 = (case config of
                   DictConfig c \<Rightarrow>
                     if is_hydra_available h then (files st)(''config.yaml'' \<mapsto> YamlOf c)
                     else files st
                 | _ \<Rightarrow> files st);
          config1 = (case config of
                       DictConfig c \<Rightarrow> if is_hydra_available h then PlainConfig c else config
                     | _ \<Rightarrow> config)
      in case get_environment_vars h of
           Inl e \<Rightarrow> Inl e
         | Inr environment \<Rightarrow>
     (let fs2 = fs1(''_environment.json'' \<mapsto> SavedEnvironment environment);
          fs3 = (if config1 \<noteq> NoConfig then fs2(''_config.json'' \<mapsto> SavedConfig config1)
                 else fs2);
          pip = list_pip_packages h;
          pip_pkg = fst pip;
          fs4 = fs3(''pip-packages.txt'' \<mapsto> Text pip_pkg);
          conda = list_conda_packages h;
          conda_pkg = fst conda;
          fs5 = (if conda_pkg \<noteq> [] then fs4(''conda-packages.txt'' \<mapsto> Text conda_pkg)
                 else fs4)
      in case copy_configs h paths fs5 of
           Inl e \<Rightarrow> Inl e
         | Inr fs6 \<Rightarrow>
             Inr \<lparr>files = fs6,
                  tb_text = tb_text st
                    @ (if config1 \<noteq> NoConfig then [(''_config'', TbConfigJson config1, 0)] else [])
                    @ [(''_environment'', TbEnvironmentJson environment, 0)]
                    @ [(''pip-packages'', TbText (replace_nl pip_pkg), 0)]
                    @ (if conda_pkg \<noteq> [] then [(''conda-packages'', TbText (replace_nl conda_pkg), 0)]
                       else []),
                  warnings = warnings st @ snd pip @ snd conda\<rparr>))"

text \<open>
  Whether the three version-control queries succeed on a host: each \<open>check_output\<close>
  returns its output (the third is asked about the decoded branch name).
\<close>

definition vcs_queries_succeed :: "host \<Rightarrow> bool" where
  "vcs_queries_succeed h =
     (case check_output h True (str_split ''git rev-parse --abbrev-ref HEAD'') of
        Raises e \<Rightarrow> False
      | Output b \<Rightarrow>
          (case utf8_decode h (bytes_strip b) of
             None \<Rightarrow> False
           | Some git_branch \<Rightarrow>
               (case check_output h True (str_split ''git rev-parse HEAD'') of
                  Raises e \<Rightarrow> False
                | Output l \<Rightarrow>
                    (case check_output h True (str_split (''git rev-parse origin/'' @ git_branch)) of
                       Raises e \<Rightarrow> False
                     | Output r \<Rightarrow> True))))"

text \<open>
  The keys that the dictionary literal of \<open>_get_environment_vars\<close> sets, in order.
\<close>

definition non_vcs_keys :: "string list" where
  "non_vcs_keys =
     [''python_version'', ''conda_environment'', ''creation_time'', ''sysname'', ''nodename'',
      ''release'', ''version'', ''architecture'', ''user'', ''path'']"

text \<open>
  Two hosts to evaluate the functions on: one where no command can be run, and one
  inside a git checkout and a conda environment, where \<open>pip\<close> fails.
\<close>

definition example_host_no_vcs :: host where
  "example_host_no_vcs =
     \<lparr>sys_version = ''3.10.4'', environ = [(''PWD'', ''/work'')], utcnow_time = ''230101.120000'',
      uname_system = ''Linux'', uname_node = ''node'', uname_release = ''6.1'',
      uname_version = ''#1'', uname_machine = ''x86_64'',
      check_output = (\<lambda>shell args. Raises FileNotFoundError),
      utf8_decode = Some, conda_meta_exists = False, is_hydra_available = False,
      copyfile_source = (\<lambda>p. Inl FileNotFoundError)\<rparr>"

definition example_host_git :: host where
  "example_host_git =
     \<lparr>sys_version = ''3.10.4'', environ = [(''USER'', ''ann'')], utcnow_time = ''230101.120000'',
      uname_system = ''Linux'', uname_node = ''node'', uname_release = ''6.1'',
      uname_version = ''#1'', uname_machine = ''x86_64'',
      check_output = (\<lambda>shell args.
         if args = [''git'', ''rev-parse'', ''--abbrev-ref'', ''HEAD''] then Output (''main'' @ [CHR 0x0A])
         else if args = [''git'', ''rev-parse'', ''HEAD''] then Output ''abc1''
         else if args = [''git'', ''rev-parse'', ''origin/main''] then Output ''abc0''
         else if args = [''conda'', ''list'', ''--export''] then Output ''numpy=1.26''
         else Raises CalledProcessError),
      utf8_decode = Some, conda_meta_exists = True, is_hydra_available = False,
      copyfile_source = (\<lambda>p. Inl FileNotFoundError)\<rparr>"

section \<open>Predicates used by the claims about \<open>_prepare_metrics\<close>\<close>

text \<open>
  No key is a strict prefix of another key; the renames of the third loop meet no other
  key (no key starts with a new name \<open>i_val\<close>, and a key that is a prefix of \<open>i_val\<close> is
  a prefix of \<open>i\<close> already); every key \<open>p/std\<close> has its sibling \<open>p/val\<close>.
\<close>

definition prefix_free :: "string list \<Rightarrow> bool" where
  "prefix_free ks = (\<forall>k\<in>set ks. \<forall>j\<in>set ks. \<not> strict_prefix k j)"

definition rename_safe :: "string list \<Rightarrow> bool" where
  "rename_safe ks =
     (\<forall>i\<in>set (find_conflicts ks). \<forall>j\<in>set ks.
        \<not> prefix (i @ ''_val'') j \<and> (prefix j (i @ ''_val'') \<longrightarrow> prefix j i))"

definition std_paired :: "string list \<Rightarrow> bool" where
  "std_paired ks =
     (\<forall>k\<in>set ks. endswith k ''/std'' \<longrightarrow> take (length k - 4) k @ ''/val'' \<in> set ks)"

text \<open>
  No key has the form \<open>x/val/std\<close> (the base of a \<open>/std\<close> key never ends in \<open>/val\<close>);
  no sibling \<open>p/val\<close> of a key \<open>p/std\<close> is among the flagged keys.
\<close>

definition no_val_std :: "string list \<Rightarrow> bool" where
  "no_val_std ks =
     (\<forall>k\<in>set ks. endswith k ''/std'' \<longrightarrow> \<not> endswith (take (length k - 4) k) ''/val'')"

definition siblings_unflagged :: "string list \<Rightarrow> bool" where
  "siblings_unflagged ks =
     (\<forall>k\<in>set ks. endswith k ''/std'' \<longrightarrow>
        take (length k - 4) k @ ''/val'' \<notin> set (find_conflicts ks))"

section \<open>Evaluation rules and auxiliary lemmas\<close>

lemmas dict_eval =
  prepare_metrics_def keys_def setitem_def pop_def endswith_def startswith_def
  find_conflicts_def conflict_inner_def AList.delete_eq

lemma replicate_small:
  "replicate 1 c = [c]" "replicate 2 c = [c, c]" "replicate 3 c = [c, c, c]"
  "replicate 4 c = [c, c, c, c]"
  by (simp_all add: numeral_2_eq_2 numeral_3_eq_3 numeral_Bit0)

lemmas fmt_eval = fmt_04d_def zero_pad_def digit_char_def replicate_small

lemma private_log_metrics_numbers:
  "private_log_metrics (map (\<lambda>(k, x). (k, Num x)) numbers) neptune_path step
     = (map (\<lambda>(k, x). AppendMetric neptune_path k x step) numbers, None)"
  by (induction numbers) auto

lemma conflict_inner_eq:
  "conflict_inner k js acc =
     (if k \<notin> set acc \<and> (\<exists>j\<in>set js. strict_prefix k j) then acc @ [k] else acc)"
  unfolding conflict_inner_def startswith_def
  by (induction js arbitrary: acc) (auto simp: strict_prefix_def)

lemma set_conflicts_aux:
  "set (foldl (\<lambda>acc k. conflict_inner k js acc) acc ks) =
     set acc \<union> {k \<in> set ks. \<exists>j\<in>set js. strict_prefix k j}"
  by (induction ks arbitrary: acc) (auto simp: conflict_inner_eq)

lemma distinct_conflicts_aux:
  "distinct acc \<Longrightarrow> distinct (foldl (\<lambda>acc k. conflict_inner k js acc) acc ks)"
  by (induction ks arbitrary: acc) (auto simp: conflict_inner_eq)

lemma set_find_conflicts:
  "set (find_conflicts ks) = {k \<in> set ks. \<exists>j\<in>set ks. strict_prefix k j}"
  by (simp add: find_conflicts_def set_conflicts_aux)

lemma distinct_find_conflicts: "distinct (find_conflicts ks)"
  by (simp add: find_conflicts_def distinct_conflicts_aux)

lemma find_conflicts_prefix_free: "prefix_free ks \<Longrightarrow> find_conflicts ks = []"
proof -
  assume "prefix_free ks"
  then have "set (find_conflicts ks) = {}"
    unfolding set_find_conflicts prefix_free_def by blast
  then show ?thesis by simp
qed

lemma set_keys_setitem: "set (keys (setitem d k v)) = insert k (set (keys d))"
  using AList.dom_update [of k v d] by (simp add: keys_def setitem_def)

lemma set_keys_delete: "set (keys (AList.delete k d)) = set (keys d) - {k}"
  by (auto simp: keys_def AList.delete_eq)

lemma pop_present:
  "k \<in> set (keys d) \<Longrightarrow> \<exists>v. pop d k = Inr (v, AList.delete k d)"
  by (cases "map_of d k") (auto simp: pop_def keys_def map_of_eq_None_iff)

lemma rename_conflicts_keys:
  "distinct is \<Longrightarrow> set is \<subseteq> set (keys d) \<Longrightarrow>
   \<forall>i\<in>set is. i @ ''_val'' \<notin> set (keys d) \<Longrightarrow>
   \<exists>out. rename_conflicts is d = Inr out \<and>
         set (keys out) = (set (keys d) - set is) \<union> (\<lambda>i. i @ ''_val'') ` set is"
proof (induction "is" arbitrary: d)
  case Nil
  then show ?case by simp
next
  case (Cons i "is")
  from Cons.prems obtain v where p: "pop d i = Inr (v, AList.delete i d)"
    using pop_present [of i d] by auto
  let ?d1 = "setitem (AList.delete i d) (i @ ''_val'') v"
  have k1: "set (keys ?d1) = insert (i @ ''_val'') (set (keys d) - {i})"
    by (simp add: set_keys_setitem set_keys_delete)
  have a: "distinct is" using Cons.prems by simp
  have b: "set is \<subseteq> set (keys ?d1)" using Cons.prems k1 by auto
  have c: "\<forall>j\<in>set is. j @ ''_val'' \<notin> set (keys ?d1)" using Cons.prems k1 by auto
  from Cons.IH [OF a b c] obtain out where
    o: "rename_conflicts is ?d1 = Inr out"
       "set (keys out) = (set (keys ?d1) - set is) \<union> (\<lambda>i. i @ ''_val'') ` set is"
    by blast
  have "i @ ''_val'' \<notin> set is" using Cons.prems by auto
  with o k1 p Cons.prems show ?case by auto
qed

lemma val_overlap:
  assumes "prefix (i @ ''_val'') (i' @ ''_val'')" and "i \<noteq> i'"
  shows "prefix (i @ ''_val'') i'"
proof -
  from assms(1) have "prefix (i @ ''_val'') i' \<or>
      (\<exists>us. i @ ''_val'' = i' @ us \<and> prefix us ''_val'')"
    by (simp add: prefix_append)
  then show ?thesis
  proof
    assume "prefix (i @ ''_val'') i'" then show ?thesis .
  next
    assume "\<exists>us. i @ ''_val'' = i' @ us \<and> prefix us ''_val''"
    then obtain us where e: "i @ ''_val'' = i' @ us" and u: "prefix us ''_val''" by blast
    from u have "us \<in> set (prefixes ''_val'')" by (simp only: in_set_prefixes)
    then have "us = [] \<or> us = ''_'' \<or> us = ''_v'' \<or> us = ''_va'' \<or> us = ''_val''"
      by simp
    then show ?thesis
    proof (elim disjE)
      assume "us = []" with e show ?thesis by simp
    next
      assume "us = ''_''"
      with e have "last (i @ ''_val'') = last (i' @ ''_'')" by simp
      then show ?thesis by simp
    next
      assume "us = ''_v''"
      with e have "last (i @ ''_val'') = last (i' @ ''_v'')" by simp
      then show ?thesis by simp
    next
      assume "us = ''_va''"
      with e have "last (i @ ''_val'') = last (i' @ ''_va'')" by simp
      then show ?thesis by simp
    next
      assume "us = ''_val''" with e assms(2) show ?thesis by simp
    qed
  qed
qed


lemma pair_std_fixed:
  "\<forall>k\<in>set ks. endswith k ''/std'' \<longrightarrow> take (length k - 4) k @ ''/val'' \<in> set (keys d) \<Longrightarrow>
   pair_std ks d = Inr d"
  by (induction ks) (simp_all add: Let_def)

lemma val_not_std: "endswith x ''/val'' \<Longrightarrow> \<not> endswith x ''/std''"
  by (cases "rev x") (simp_all add: endswith_def)

lemma renamed_not_std: "\<not> endswith (i @ ''_val'') ''/std''"
  by (simp add: endswith_def)

lemma sibling_is_val: "endswith (p @ ''/val'') ''/val''"
  by (simp add: endswith_def)

lemma pop_Inr: "pop d k = Inr (v, d') \<Longrightarrow> d' = AList.delete k d"
  by (auto simp: pop_def split: option.splits)

lemma pair_std_keeps:
  "pair_std ks d = Inr d' \<Longrightarrow> x \<in> set (keys d) \<Longrightarrow>
   \<forall>k\<in>set ks. endswith k ''/std'' \<longrightarrow> take (length k - 4) k \<noteq> x \<Longrightarrow>
   x \<in> set (keys d')"
proof (induction ks arbitrary: d)
  case Nil
  then show ?case by simp
next
  case (Cons k ks)
  show ?case
  proof (cases "endswith k ''/std'' \<and> take (length k - 4) k @ ''/val'' \<notin> set (keys d)")
    case False
    with Cons.prems have "pair_std ks d = Inr d'" by (auto simp: Let_def split: if_splits)
    with Cons.IH [of d] Cons.prems show ?thesis by simp
  next
    case True
    with Cons.prems obtain v d1 where
      p: "pop d (take (length k - 4) k) = Inr (v, d1)"
      and r: "pair_std ks (setitem d1 (take (length k - 4) k @ ''/val'') v) = Inr d'"
      by (auto simp: Let_def split: sum.splits)
    from p have d1: "d1 = AList.delete (take (length k - 4) k) d" by (rule pop_Inr)
    from True Cons.prems have "take (length k - 4) k \<noteq> x" by simp
    with Cons.prems(2) d1
    have "x \<in> set (keys (setitem d1 (take (length k - 4) k @ ''/val'') v))"
      by (simp add: set_keys_setitem set_keys_delete)
    with Cons.IH [OF r] Cons.prems(3) show ?thesis by simp
  qed
qed

lemma pair_std_new_keys:
  "pair_std ks d = Inr d' \<Longrightarrow> x \<in> set (keys d') \<Longrightarrow> x \<in> set (keys d) \<or> endswith x ''/val''"
proof (induction ks arbitrary: d)
  case Nil
  then show ?case by simp
next
  case (Cons k ks)
  show ?case
  proof (cases "endswith k ''/std'' \<and> take (length k - 4) k @ ''/val'' \<notin> set (keys d)")
    case False
    with Cons.prems have "pair_std ks d = Inr d'" by (auto simp: Let_def split: if_splits)
    with Cons.IH [of d] Cons.prems show ?thesis by simp
  next
    case True
    with Cons.prems obtain v d1 where
      p: "pop d (take (length k - 4) k) = Inr (v, d1)"
      and r: "pair_std ks (setitem d1 (take (length k - 4) k @ ''/val'') v) = Inr d'"
      by (auto simp: Let_def split: sum.splits)
    from p have d1: "d1 = AList.delete (take (length k - 4) k) d" by (rule pop_Inr)
    from Cons.IH [OF r Cons.prems(2)]
    have "x \<in> set (keys (setitem d1 (take (length k - 4) k @ ''/val'') v)) \<or> endswith x ''/val''" .
    with d1 show ?thesis
      by (auto simp: set_keys_setitem set_keys_delete sibling_is_val)
  qed
qed

lemma pair_std_siblings:
  "pair_std ks d = Inr d' \<Longrightarrow> no_val_std ks \<Longrightarrow>
   \<forall>k\<in>set ks. endswith k ''/std'' \<longrightarrow> take (length k - 4) k @ ''/val'' \<in> set (keys d')"
proof (induction ks arbitrary: d)
  case Nil
  then show ?case by simp
next
  case (Cons k ks)
  from Cons.prems(2) have nv: "no_val_std ks" by (simp add: no_val_std_def)
  have away: "\<forall>k'\<in>set ks. endswith k' ''/std'' \<longrightarrow>
                take (length k' - 4) k' \<noteq> take (length k - 4) k @ ''/val''"
  proof (intro ballI impI notI)
    fix k' assume m: "k' \<in> set ks" "endswith k' ''/std''"
      and e: "take (length k' - 4) k' = take (length k - 4) k @ ''/val''"
    from nv m have "\<not> endswith (take (length k' - 4) k') ''/val''"
      by (simp add: no_val_std_def)
    with e show False by (simp add: sibling_is_val)
  qed
  show ?case
  proof (cases "endswith k ''/std''")
    case False
    with Cons.prems have "pair_std ks d = Inr d'" by simp
    with Cons.IH [of d] nv False show ?thesis by simp
  next
    case True
    show ?thesis
    proof (cases "take (length k - 4) k @ ''/val'' \<in> set (keys d)")
      case True
      with \<open>endswith k ''/std''\<close> Cons.prems have r: "pair_std ks d = Inr d'"
        by (simp add: Let_def)
      from pair_std_keeps [OF r True away]
      have "take (length k - 4) k @ ''/val'' \<in> set (keys d')" .
      with Cons.IH [OF r nv] show ?thesis by simp
    next
      case False
      with \<open>endswith k ''/std''\<close> Cons.prems obtain v d1 where
        r: "pair_std ks (setitem d1 (take (length k - 4) k @ ''/val'') v) = Inr d'"
        by (auto simp: Let_def split: sum.splits)
      have "take (length k - 4) k @ ''/val''
              \<in> set (keys (setitem d1 (take (length k - 4) k @ ''/val'') v))"
        by (simp add: set_keys_setitem)
      from pair_std_keeps [OF r this away]
      have "take (length k - 4) k @ ''/val'' \<in> set (keys d')" .
      with Cons.IH [OF r nv] show ?thesis by simp
    qed
  qed
qed

lemma pair_std_std_paired:
  assumes "pair_std (keys m) m = Inr d" and "no_val_std (keys m)"
  shows "std_paired (keys d)"
  unfolding std_paired_def
proof (intro ballI impI)
  fix k assume k: "k \<in> set (keys d)" and s: "endswith k ''/std''"
  from pair_std_new_keys [OF assms(1) k] s have "k \<in> set (keys m)"
    by (auto dest: val_not_std)
  with pair_std_siblings [OF assms] s
  show "take (length k - 4) k @ ''/val'' \<in> set (keys d)" by simp
qed

lemma rename_safe_output:
  assumes "rename_safe (keys d)"
  shows "\<exists>out. rename_conflicts (find_conflicts (keys d)) d = Inr out
           \<and> set (keys out) = (set (keys d) - set (find_conflicts (keys d)))
                 \<union> (\<lambda>i. i @ ''_val'') ` set (find_conflicts (keys d))
           \<and> prefix_free (keys out)"
proof -
  let ?K = "set (keys d)" and ?F = "set (find_conflicts (keys d))"
  have F: "?F = {k \<in> ?K. \<exists>j\<in>?K. strict_prefix k j}" by (rule set_find_conflicts)
  have safe1: "\<And>i j. i \<in> ?F \<Longrightarrow> j \<in> ?K \<Longrightarrow> \<not> prefix (i @ ''_val'') j"
    and safe2: "\<And>i j. i \<in> ?F \<Longrightarrow> j \<in> ?K \<Longrightarrow> prefix j (i @ ''_val'') \<Longrightarrow> prefix j i"
    using assms unfolding rename_safe_def by blast+
  have fresh: "\<forall>i\<in>?F. i @ ''_val'' \<notin> ?K" using safe1 by blast
  have sub: "?F \<subseteq> ?K" using F by blast
  from rename_conflicts_keys [OF distinct_find_conflicts sub fresh] obtain out where
    out: "rename_conflicts (find_conflicts (keys d)) d = Inr out"
    and ks: "set (keys out) = (?K - ?F) \<union> (\<lambda>i. i @ ''_val'') ` ?F"
    by blast
  have "\<not> strict_prefix a b" if a: "a \<in> set (keys out)" and b: "b \<in> set (keys out)" for a b
  proof
    assume sp: "strict_prefix a b"
    then have pre: "prefix a b" and neq: "a \<noteq> b" by (simp_all add: strict_prefix_def)
    show False
    proof (cases "a \<in> ?K - ?F")
      case True
      show False
      proof (cases "b \<in> ?K - ?F")
        case True
        with \<open>a \<in> ?K - ?F\<close> sp F show False by blast
      next
        case False
        with b ks obtain i' where i': "i' \<in> ?F" "b = i' @ ''_val''" by blast
        with safe2 [of i' a] True pre have "prefix a i'" by simp
        moreover have "a \<noteq> i'" using True i' by blast
        ultimately have "strict_prefix a i'" by (simp add: strict_prefix_def)
        moreover have "i' \<in> ?K" using i' sub by blast
        ultimately show False using True F by blast
      qed
    next
      case False
      with a ks obtain i where i: "i \<in> ?F" "a = i @ ''_val''" by blast
      show False
      proof (cases "b \<in> ?K")
        case True
        with safe1 [of i b] i pre show False by simp
      next
        case False
        with b ks obtain i' where i': "i' \<in> ?F" "b = i' @ ''_val''" by blast
        with i neq have "i \<noteq> i'" by auto
        with pre i i' have "prefix (i @ ''_val'') i'"
          using val_overlap [of i i'] by simp
        moreover have "i' \<in> ?K" using i' sub by blast
        ultimately show False using safe1 [of i i'] i by simp
      qed
    qed
  qed
  then have "prefix_free (keys out)" unfolding prefix_free_def by blast
  with out ks show ?thesis by blast
qed

lemmas sys_eval =
  get_environment_vars_def git_info_def vcs_queries_succeed_def environ_get_def
  str_split_def bytes_strip_def is_str_space_def is_bytes_space_def
  list_pip_packages_def list_conda_packages_def setitem_def keys_def path_name_def

lemma decode_value_error:
  "decode_value dec v = Inl e \<Longrightarrow> e = UnicodeDecodeError"
  by (cases v) (auto split: option.splits)

lemma decode_dict_error:
  "decode_dict dec d = Inl e \<Longrightarrow> e = UnicodeDecodeError"
  by (induction d) (auto split: sum.splits dest: decode_value_error)

lemma git_info_succeeds:
  "git_info h = Inr g \<Longrightarrow> vcs_queries_succeed h"
  by (auto simp: git_info_def vcs_queries_succeed_def
      split: proc_result.splits option.splits)

lemma git_info_caught:
  assumes "git_info h = Inl e" and "e = CalledProcessError \<or> e = FileNotFoundError"
  shows "\<not> vcs_queries_succeed h"
proof (cases "check_output h True (str_split ''git rev-parse --abbrev-ref HEAD'')")
  case (Raises x)
  then show ?thesis by (simp add: vcs_queries_succeed_def)
next
  case (Output b)
  note q1 = this
  show ?thesis
  proof (cases "utf8_decode h (bytes_strip b)")
    case None
    with q1 show ?thesis by (simp add: vcs_queries_succeed_def)
  next
    case (Some git_branch)
    note br = this
    show ?thesis
    proof (cases "check_output h True (str_split ''git rev-parse HEAD'')")
      case (Raises x)
      with q1 br show ?thesis by (simp add: vcs_queries_succeed_def)
    next
      case (Output l)
      note q2 = this
      show ?thesis
      proof (cases "check_output h True (str_split (''git rev-parse origin/'' @ git_branch))")
        case (Raises x)
        with q1 br q2 show ?thesis by (simp add: vcs_queries_succeed_def)
      next
        case (Output r)
        with q1 br q2 assms(1) have "\<exists>d. decode_dict (utf8_decode h) d = Inl e"
          unfolding git_info_def by (simp del: decode_dict.simps) blast
        then have "e = UnicodeDecodeError" by (auto dest: decode_dict_error)
        with assms(2) show ?thesis by simp
      qed
    qed
  qed
qed

lemma copy_configs_dom:
  "copy_configs h ps fs = Inr fs' \<Longrightarrow> dom fs' = dom fs \<union> path_name ` set ps"
  by (induction ps arbitrary: fs) (auto split: sum.splits if_splits)

section \<open>Claims about \<open>_prepare_metrics\<close>\<close>

text \<open>
  C1, as stated: the output never holds two keys of which one is a strict prefix of the
  other. It fails on \<open>{"a": 1, "a_val_x": 2}\<close>: \<open>a\<close> is renamed to \<open>a_val\<close>, a strict
  prefix of the key \<open>a_val_x\<close> that stays.
\<close>

theorem C1_counterexample:
  "prepare_metrics [(''a'', 1::int), (''a_val_x'', 2)] = Inr [(''a_val_x'', 2), (''a_val'', 1)]
   \<and> strict_prefix ''a_val'' ''a_val_x''"
  by (simp add: dict_eval)

text \<open>
  C1, amended. Let \<open>d\<close> be the batch after the std/val pairing. If no key of \<open>d\<close> starts
  with the new name \<open>i_val\<close> of a flagged key \<open>i\<close>, and every key of \<open>d\<close> that is a prefix of
  such a new name is a prefix of \<open>i\<close> itself, then \<open>_prepare_metrics\<close> returns and no key
  of its output is a strict prefix of another.
\<close>

theorem C1_prefix_free_when_rename_safe:
  assumes "pair_std (keys m) m = Inr d" and "rename_safe (keys d)"
  shows "\<exists>out. prepare_metrics m = Inr out \<and> prefix_free (keys out)"
proof -
  let ?K = "set (keys d)" and ?F = "set (find_conflicts (keys d))"
  have F: "?F = {k \<in> ?K. \<exists>j\<in>?K. strict_prefix k j}" by (rule set_find_conflicts)
  have safe1: "\<And>i j. i \<in> ?F \<Longrightarrow> j \<in> ?K \<Longrightarrow> \<not> prefix (i @ ''_val'') j"
    and safe2: "\<And>i j. i \<in> ?F \<Longrightarrow> j \<in> ?K \<Longrightarrow> prefix j (i @ ''_val'') \<Longrightarrow> prefix j i"
    using assms(2) unfolding rename_safe_def by blast+
  have fresh: "\<forall>i\<in>?F. i @ ''_val'' \<notin> ?K"
    using safe1 by blast
  have sub: "?F \<subseteq> ?K" using F by blast
  from rename_conflicts_keys [OF distinct_find_conflicts sub fresh] obtain out where
    out: "rename_conflicts (find_conflicts (keys d)) d = Inr out"
    and ks: "set (keys out) = (?K - ?F) \<union> (\<lambda>i. i @ ''_val'') ` ?F"
    by blast
  have pm: "prepare_metrics m = Inr out"
    using assms(1) out by (simp add: prepare_metrics_def)
  have "\<not> strict_prefix a b" if a: "a \<in> set (keys out)" and b: "b \<in> set (keys out)" for a b
  proof
    assume sp: "strict_prefix a b"
    then have pre: "prefix a b" and neq: "a \<noteq> b" by (simp_all add: strict_prefix_def)
    from a ks consider "a \<in> ?K" "a \<notin> ?F" | i where "i \<in> ?F" "a = i @ ''_val''" by blast
    then show False
    proof cases
      case 1
      from b ks consider "b \<in> ?K" "b \<notin> ?F" | i' where "i' \<in> ?F" "b = i' @ ''_val''" by blast
      then show False
      proof cases
        case 1
        with \<open>a \<in> ?K\<close> \<open>a \<notin> ?F\<close> sp F show False by blast
      next
        case 2
        with safe2 [of i' a] \<open>a \<in> ?K\<close> pre have "prefix a i'" by simp
        moreover have "a \<noteq> i'" using \<open>a \<notin> ?F\<close> 2 by blast
        ultimately have "strict_prefix a i'" by (simp add: strict_prefix_def)
        moreover have "i' \<in> ?K" using 2 sub by blast
        ultimately show False using \<open>a \<in> ?K\<close> \<open>a \<notin> ?F\<close> F by blast
      qed
    next
      case 2
      from b ks consider "b \<in> ?K" | i' where "i' \<in> ?F" "b = i' @ ''_val''" by blast
      then show False
      proof cases
        case 1
        with safe1 [of i b] 2 pre show False by simp
      next
        case 2
        note b2 = this
        from \<open>a = i @ ''_val''\<close> b2 neq have "i \<noteq> i'" by auto
        with pre \<open>a = i @ ''_val''\<close> b2 have "prefix (i @ ''_val'') i'"
          using val_overlap [of i i'] by simp
        moreover have "i' \<in> ?K" using b2 sub by blast
        ultimately show False using safe1 [of i i'] \<open>i \<in> ?F\<close> by simp
      qed
    qed
  qed
  then have "prefix_free (keys out)" unfolding prefix_free_def by blast
  with pm show ?thesis by blast
qed

theorem C1_witness:
  "pair_std (keys [(''loss'', 23::int), (''loss/auc'', 9)]) [(''loss'', 23), (''loss/auc'', 9)]
     = Inr [(''loss'', 23), (''loss/auc'', 9)]
   \<and> rename_safe (keys [(''loss'', 23::int), (''loss/auc'', 9)])
   \<and> (\<exists>out. prepare_metrics [(''loss'', 23::int), (''loss/auc'', 9)] = Inr out
          \<and> prefix_free (keys out))"
proof -
  have h1: "pair_std (keys [(''loss'', 23::int), (''loss/auc'', 9)])
              [(''loss'', 23), (''loss/auc'', 9)] = Inr [(''loss'', 23), (''loss/auc'', 9)]"
    by (simp add: dict_eval)
  have h2: "rename_safe (keys [(''loss'', 23::int), (''loss/auc'', 9)])"
    by (simp add: rename_safe_def dict_eval)
  from C1_prefix_free_when_rename_safe [OF h1 h2] h1 h2 show ?thesis by blast
qed

text \<open>
  C3. The claim is that \<open>_prepare_metrics\<close> never raises and that a key \<open>p/std\<close> whose
  base key \<open>p\<close> is absent (and \<open>p/val\<close> absent) is left alone. On the batch
  \<open>{"p/std": 1}\<close> the source reaches \<open>processed_metrics.pop("p")\<close>, which has no default,
  and raises \<open>KeyError\<close>.
\<close>

theorem C3_std_without_base_raises:
  "prepare_metrics [(''p/std'', 1::int)] = Inl KeyError"
  by (simp add: dict_eval)

text \<open>
  C5. The claim is that the output has as many entries as the input and keeps every
  value. On \<open>{"a": 1, "a_val": 2}\<close> the key \<open>a\<close> is flagged (it is a prefix of \<open>a_val\<close>)
  and the rename assigns to the existing key \<open>a_val\<close>: the value 2 is lost and one entry
  remains.
\<close>

theorem C5_rename_overwrites_entry:
  "prepare_metrics [(''a'', 1::int), (''a_val'', 2)] = Inr [(''a_val'', 1)]"
  by (simp add: dict_eval)

text \<open>
  C6, as stated: applying \<open>_prepare_metrics\<close> to its own output changes nothing. It fails
  on \<open>{"a": 1, "a_v": 2}\<close>: the first pass gives \<open>{"a_v": 2, "a_val": 1}\<close>, where \<open>a_v\<close> is
  now a prefix of \<open>a_val\<close>, and the second pass renames \<open>a_v\<close> to \<open>a_v_val\<close>.
\<close>

theorem C6_counterexample:
  "prepare_metrics [(''a'', 1::int), (''a_v'', 2)] = Inr [(''a_v'', 2), (''a_val'', 1)]
   \<and> prepare_metrics [(''a_v'', 2::int), (''a_val'', 1)] = Inr [(''a_val'', 1), (''a_v_val'', 2)]
   \<and> map_of [(''a_val'', 1::int), (''a_v_val'', 2)] ''a_v''
       \<noteq> map_of [(''a_v'', 2::int), (''a_val'', 1)] ''a_v''"
  by (simp add: dict_eval)

text \<open>
  C6, amended. Let \<open>d\<close> be the batch after the std/val pairing of \<open>m\<close>. If \<open>m\<close> has no key
  of the form \<open>x/val/std\<close>, the renames are safe on \<open>d\<close> (no key of \<open>d\<close> starts with the
  new name \<open>i_val\<close> of a flagged key \<open>i\<close>, and every key of \<open>d\<close> that is a prefix of such a
  new name is a prefix of \<open>i\<close>), and no sibling \<open>p/val\<close> of a key \<open>p/std\<close> of \<open>d\<close> is flagged,
  then \<open>_prepare_metrics\<close> returns a batch \<open>r\<close> on \<open>m\<close>, and applied to \<open>r\<close> it returns \<open>r\<close>
  unchanged (same entries, same order).
\<close>

theorem C6_idempotent_when_renames_safe:
  assumes "pair_std (keys m) m = Inr d"
    and "no_val_std (keys m)"
    and "rename_safe (keys d)"
    and "siblings_unflagged (keys d)"
  shows "\<exists>r. prepare_metrics m = Inr r \<and> prepare_metrics r = Inr r"
proof -
  let ?K = "set (keys d)" and ?F = "set (find_conflicts (keys d))"
  from rename_safe_output [OF assms(3)] obtain r where
    r: "rename_conflicts (find_conflicts (keys d)) d = Inr r"
    and ks: "set (keys r) = (?K - ?F) \<union> (\<lambda>i. i @ ''_val'') ` ?F"
    and pf: "prefix_free (keys r)"
    by blast
  have first: "prepare_metrics m = Inr r"
    using assms(1) r by (simp add: prepare_metrics_def)
  have paired_d: "std_paired (keys d)"
    using assms(1,2) by (rule pair_std_std_paired)
  have paired_r: "\<forall>k\<in>set (keys r). endswith k ''/std'' \<longrightarrow>
                    take (length k - 4) k @ ''/val'' \<in> set (keys r)"
  proof (intro ballI impI)
    fix k assume k: "k \<in> set (keys r)" and s: "endswith k ''/std''"
    from k ks s have kd: "k \<in> ?K" by (auto simp: renamed_not_std)
    with paired_d s have "take (length k - 4) k @ ''/val'' \<in> ?K"
      by (simp add: std_paired_def)
    moreover from assms(4) kd s have "take (length k - 4) k @ ''/val'' \<notin> ?F"
      by (simp add: siblings_unflagged_def)
    ultimately show "take (length k - 4) k @ ''/val'' \<in> set (keys r)" using ks by blast
  qed
  have "pair_std (keys r) r = Inr r" using paired_r by (rule pair_std_fixed)
  moreover have "find_conflicts (keys r) = []" using pf by (rule find_conflicts_prefix_free)
  ultimately have "prepare_metrics r = Inr r" by (simp add: prepare_metrics_def)
  with first show ?thesis by blast
qed

theorem C6_witness:
  "pair_std (keys [(''loss/std'', 1::int), (''loss'', 23), (''acc'', 5), (''acc/k'', 7)])
      [(''loss/std'', 1), (''loss'', 23), (''acc'', 5), (''acc/k'', 7)]
     = Inr [(''loss/std'', 1), (''acc'', 5), (''acc/k'', 7), (''loss/val'', 23)]
   \<and> no_val_std (keys [(''loss/std'', 1::int), (''loss'', 23), (''acc'', 5), (''acc/k'', 7)])
   \<and> rename_safe (keys [(''loss/std'', 1::int), (''acc'', 5), (''acc/k'', 7), (''loss/val'', 23)])
   \<and> siblings_unflagged
        (keys [(''loss/std'', 1::int), (''acc'', 5), (''acc/k'', 7), (''loss/val'', 23)])
   \<and> prepare_metrics [(''loss/std'', 1::int), (''loss'', 23), (''acc'', 5), (''acc/k'', 7)]
       = Inr [(''loss/std'', 1), (''acc/k'', 7), (''loss/val'', 23), (''acc_val'', 5)]
   \<and> prepare_metrics [(''loss/std'', 1::int), (''acc/k'', 7), (''loss/val'', 23), (''acc_val'', 5)]
       = Inr [(''loss/std'', 1), (''acc/k'', 7), (''loss/val'', 23), (''acc_val'', 5)]"
proof -
  have h1: "pair_std (keys [(''loss/std'', 1::int), (''loss'', 23), (''acc'', 5), (''acc/k'', 7)])
      [(''loss/std'', 1), (''loss'', 23), (''acc'', 5), (''acc/k'', 7)]
     = Inr [(''loss/std'', 1), (''acc'', 5), (''acc/k'', 7), (''loss/val'', 23)]"
    by (simp add: dict_eval)
  have h2: "no_val_std (keys [(''loss/std'', 1::int), (''loss'', 23), (''acc'', 5), (''acc/k'', 7)])"
    by (simp add: no_val_std_def keys_def endswith_def)
  have c: "find_conflicts [''loss/std'', ''acc'', ''acc/k'', ''loss/val''] = [''acc'']"
    by (simp add: dict_eval)
  have h3: "rename_safe
      (keys [(''loss/std'', 1::int), (''acc'', 5), (''acc/k'', 7), (''loss/val'', 23)])"
    by (simp add: rename_safe_def keys_def c)
  have h4: "siblings_unflagged
      (keys [(''loss/std'', 1::int), (''acc'', 5), (''acc/k'', 7), (''loss/val'', 23)])"
    by (simp add: siblings_unflagged_def keys_def c endswith_def)
  have e: "prepare_metrics [(''loss/std'', 1::int), (''loss'', 23), (''acc'', 5), (''acc/k'', 7)]
       = Inr [(''loss/std'', 1), (''acc/k'', 7), (''loss/val'', 23), (''acc_val'', 5)]"
    by (simp add: dict_eval)
  from C6_idempotent_when_renames_safe [OF h1 h2 h3 h4] e h1 h2 h3 h4 show ?thesis by auto
qed

section \<open>Claims about \<open>NeptuneLogger\<close>\<close>

text \<open>
  C2. The claim is that, for a scope string other than \<open>batch\<close>, \<open>loader\<close>, \<open>epoch\<close> and
  \<open>experiment\<close>, \<open>log_metrics\<close>, \<open>log_image\<close> and \<open>log_artifact\<close> do nothing and raise
  nothing. \<open>log_metrics\<close> does so, but \<open>log_image\<close> and \<open>log_artifact\<close> read a path
  variable that no branch assigned: at scope \<open>"sample"\<close> both raise
  \<open>UnboundLocalError\<close> (and write nothing).
\<close>

theorem C2_unknown_scope_raises:
  "log_image self tag img runner (Some ''sample'') = ([], Some UnboundLocalError)
   \<and> log_artifact self tag runner artifact path_to_artifact (Some ''sample'')
       = ([], Some UnboundLocalError)
   \<and> log_metrics self metrics (Some ''sample'') runner = ([], None)"
  by (simp add: log_image_def log_image_path_def log_artifact_def log_artifact_path_def
      log_metrics_def discard_def)

text \<open>
  C4. The claim is that \<open>log_artifact\<close> called with both an in-memory artifact and a
  path raises and uploads nothing. The source builds the \<open>ValueError\<close> without raising
  it: the call goes on, uploads the pickled in-memory artifact and returns normally.
\<close>

theorem C4_both_supplied_uploads_artifact:
  "log_artifact self tag runner (Some artifact) (Some path_to_artifact) None
     = ([UploadPickle (join ''/'' [base_namespace self, ''_artifacts'', tag]) artifact], None)"
  by (simp add: log_artifact_def log_artifact_path_def private_log_artifact_def discard_def)

text \<open>
  C9. With base namespace \<open>experiment\<close>, scope \<open>batch\<close>, epoch step 3, loader key
  \<open>train\<close>, batch step 7 and tag \<open>sample\<close>, \<open>log_artifact\<close> uploads to the path
  \<open>experiment/_artifacts/epoch-0003/loader-train/batch-0007/sample\<close>.
\<close>

theorem C9_batch_artifact_path:
  "log_artifact_path
     \<lparr>base_namespace = ''experiment'', log_batch_metrics = lb, log_epoch_metrics = le\<rparr>
     ''sample''
     \<lparr>epoch_step = 3, loader_key = ''train'', batch_step = 7, sample_step = s\<rparr>
     (Some ''batch'')
   = Some ''experiment/_artifacts/epoch-0003/loader-train/batch-0007/sample''
   \<and> log_artifact
     \<lparr>base_namespace = ''experiment'', log_batch_metrics = lb, log_epoch_metrics = le\<rparr>
     ''sample''
     \<lparr>epoch_step = 3, loader_key = ''train'', batch_step = 7, sample_step = s\<rparr>
     (Some artifact) None (Some ''batch'')
   = ([UploadPickle ''experiment/_artifacts/epoch-0003/loader-train/batch-0007/sample''
         artifact], None)"
  by (simp add: log_artifact_def log_artifact_path_def private_log_artifact_def discard_def
      fmt_eval)

text \<open>
  C10. With \<open>scope=None\<close> each of the three methods does what it does with
  \<open>scope="experiment"\<close>: \<open>log_metrics\<close> hands the metrics to \<open>_log_metrics\<close> with the bare
  base namespace and step 0, whatever the two toggles are (so a batch of numbers is
  appended entry by entry under the base namespace at step 0); \<open>log_image\<close> appends to
  \<open>base/_images/tag\<close>; \<open>log_artifact\<close> uploads to \<open>base/_artifacts/tag\<close>.
\<close>

theorem C10_none_scope_is_experiment:
  "log_metrics self metrics None runner = log_metrics self metrics (Some ''experiment'') runner
   \<and> log_metrics self metrics None runner = private_log_metrics metrics (base_namespace self) 0
   \<and> log_metrics self (map (\<lambda>(k, x). (k, Num x)) numbers) None runner
       = (map (\<lambda>(k, x). AppendMetric (base_namespace self) k x 0) numbers, None)
   \<and> log_image self tag img runner None = log_image self tag img runner (Some ''experiment'')
   \<and> log_image self tag img runner None
       = ([AppendImage (join ''/'' [base_namespace self, ''_images'', tag]) img], None)
   \<and> log_artifact self tag runner artifact path_to_artifact None
       = log_artifact self tag runner artifact path_to_artifact (Some ''experiment'')
   \<and> log_artifact self tag runner artifact path_to_artifact None
       = private_log_artifact artifact path_to_artifact
           (join ''/'' [base_namespace self, ''_artifacts'', tag])"
  by (simp add: log_metrics_def log_image_def log_image_path_def private_log_image_def
      log_artifact_def log_artifact_path_def discard_def private_log_metrics_numbers)

section \<open>Claims about the environment dump\<close>

text \<open>
  C7, as stated: the snapshot holds exactly 9 keys besides \<open>git\<close>. On a host where no
  command can be run the snapshot has 10 keys, none of them \<open>git\<close>:
  \<open>conda_environment\<close> is one of them.
\<close>

theorem C7_counterexample:
  "get_environment_vars example_host_no_vcs =
     Inr [(''python_version'', PStr ''3.10.4''), (''conda_environment'', PStr ''''),
          (''creation_time'', PStr ''230101.120000''), (''sysname'', PStr ''Linux''),
          (''nodename'', PStr ''node''), (''release'', PStr ''6.1''), (''version'', PStr ''#1''),
          (''architecture'', PStr ''x86_64''), (''user'', PStr ''''), (''path'', PStr ''/work'')]
   \<and> length (keys (projr (get_environment_vars example_host_no_vcs))) = 10
   \<and> ''git'' \<notin> set (keys (projr (get_environment_vars example_host_no_vcs)))"
  by (simp add: sys_eval example_host_no_vcs_def)

text \<open>
  C7, amended. Whenever \<open>_get_environment_vars\<close> returns, the keys of the snapshot other
  than \<open>git\<close> are exactly the 10 keys \<open>python_version\<close>, \<open>conda_environment\<close>,
  \<open>creation_time\<close>, \<open>sysname\<close>, \<open>nodename\<close>, \<open>release\<close>, \<open>version\<close>, \<open>architecture\<close>,
  \<open>user\<close>, \<open>path\<close>; the three values read from environment variables are the empty
  string when the variable is not set; and the key \<open>git\<close> is present if and only if all
  three version-control queries succeeded.
\<close>

theorem C7_environment_snapshot_keys:
  assumes "get_environment_vars h = Inr r"
  shows "filter (\<lambda>k. k \<noteq> ''git'') (keys r) = non_vcs_keys
         \<and> (''git'' \<in> set (keys r) \<longleftrightarrow> vcs_queries_succeed h)
         \<and> map_of r ''conda_environment'' = Some (PStr (environ_get h ''CONDA_DEFAULT_ENV'' ''''))
         \<and> map_of r ''user'' = Some (PStr (environ_get h ''USER'' ''''))
         \<and> map_of r ''path'' = Some (PStr (environ_get h ''PWD'' ''''))"
proof (cases "git_info h")
  case (Inl e)
  with assms have ok: "e = CalledProcessError \<or> e = FileNotFoundError"
    by (auto simp: get_environment_vars_def Let_def split: if_splits)
  have no: "\<not> vcs_queries_succeed h" using Inl ok by (rule git_info_caught)
  from assms Inl ok have "r =
      [(''python_version'', PStr (sys_version h)),
       (''conda_environment'', PStr (environ_get h ''CONDA_DEFAULT_ENV'' '''')),
       (''creation_time'', PStr (utcnow_time h)),
       (''sysname'', PStr (uname_system h)),
       (''nodename'', PStr (uname_node h)),
       (''release'', PStr (uname_release h)),
       (''version'', PStr (uname_version h)),
       (''architecture'', PStr (uname_machine h)),
       (''user'', PStr (environ_get h ''USER'' '''')),
       (''path'', PStr (environ_get h ''PWD'' ''''))]"
    by (auto simp: get_environment_vars_def Let_def)
  with no show ?thesis by (simp add: keys_def non_vcs_keys_def)
next
  case (Inr g)
  have yes: "vcs_queries_succeed h" using Inr by (rule git_info_succeeds)
  from assms Inr have "r =
      [(''python_version'', PStr (sys_version h)),
       (''conda_environment'', PStr (environ_get h ''CONDA_DEFAULT_ENV'' '''')),
       (''creation_time'', PStr (utcnow_time h)),
       (''sysname'', PStr (uname_system h)),
       (''nodename'', PStr (uname_node h)),
       (''release'', PStr (uname_release h)),
       (''version'', PStr (uname_version h)),
       (''architecture'', PStr (uname_machine h)),
       (''user'', PStr (environ_get h ''USER'' '''')),
       (''path'', PStr (environ_get h ''PWD'' '''')),
       (''git'', PDict g)]"
    by (auto simp: get_environment_vars_def Let_def setitem_def)
  with yes show ?thesis by (simp add: keys_def non_vcs_keys_def)
qed

theorem C7_witness:
  "get_environment_vars example_host_git =
     Inr [(''python_version'', PStr ''3.10.4''), (''conda_environment'', PStr ''''),
          (''creation_time'', PStr ''230101.120000''), (''sysname'', PStr ''Linux''),
          (''nodename'', PStr ''node''), (''release'', PStr ''6.1''), (''version'', PStr ''#1''),
          (''architecture'', PStr ''x86_64''), (''user'', PStr ''ann''), (''path'', PStr ''''),
          (''git'', PDict [(''branch'', PStr ''main''), (''local_commit'', PStr ''abc1''),
                          (''origin_commit'', PStr ''abc0'')])]
   \<and> vcs_queries_succeed example_host_git
   \<and> environ_get example_host_git ''PWD'' '''' = ''''"
proof -
  have h: "get_environment_vars example_host_git =
     Inr [(''python_version'', PStr ''3.10.4''), (''conda_environment'', PStr ''''),
          (''creation_time'', PStr ''230101.120000''), (''sysname'', PStr ''Linux''),
          (''nodename'', PStr ''node''), (''release'', PStr ''6.1''), (''version'', PStr ''#1''),
          (''architecture'', PStr ''x86_64''), (''user'', PStr ''ann''), (''path'', PStr ''''),
          (''git'', PDict [(''branch'', PStr ''main''), (''local_commit'', PStr ''abc1''),
                          (''origin_commit'', PStr ''abc0'')])]"
    by (simp add: sys_eval example_host_git_def)
  from C7_environment_snapshot_keys [OF h] h show ?thesis by (simp add: keys_def)
qed

text \<open>
  C8, as stated: \<open>pip-packages.txt\<close> exists only if the pip listing was non-empty. On a
  host where \<open>pip freeze\<close> cannot be run the listing is empty, \<open>dump_environment\<close>
  completes, and the file exists (empty): it is written without a test.
\<close>

theorem C8_counterexample:
  "fst (list_pip_packages example_host_no_vcs) = []
   \<and> \<not> isl (dump_environment example_host_no_vcs ''logs'' (NoConfig :: unit config_arg) None
              \<lparr>files = Map.empty, tb_text = [], warnings = []\<rparr>)
   \<and> files (projr (dump_environment example_host_no_vcs ''logs'' (NoConfig :: unit config_arg) None
              \<lparr>files = Map.empty, tb_text = [], warnings = []\<rparr>)) ''pip-packages.txt''
       = Some (Text [])"
  by (simp add: dump_environment_def Let_def sys_eval example_host_no_vcs_def)

text \<open>
  C8, amended. After \<open>dump_environment\<close> completes, \<open>pip-packages.txt\<close> exists whether
  or not the pip listing was empty; and, when the configs directory held no
  \<open>conda-packages.txt\<close> before and no copied configuration file has that name,
  \<open>conda-packages.txt\<close> exists if and only if the conda listing was non-empty.
\<close>

theorem C8_package_files_written:
  assumes "dump_environment h logdir config configs_path st = Inr st'"
  shows "''pip-packages.txt'' \<in> dom (files st')
         \<and> (''conda-packages.txt'' \<notin> dom (files st) \<longrightarrow>
            ''conda-packages.txt'' \<notin>
               path_name ` set (str_paths (case configs_path of None \<Rightarrow> [] | Some ps \<Rightarrow> ps)) \<longrightarrow>
            (''conda-packages.txt'' \<in> dom (files st') \<longleftrightarrow> fst (list_conda_packages h) \<noteq> []))"
proof -
  let ?paths = "str_paths (case configs_path of None \<Rightarrow> [] | Some ps \<Rightarrow> ps)"
  from assms obtain fs5 where
    c: "copy_configs h ?paths fs5 = Inr (files st')"
    and p: "''pip-packages.txt'' \<in> dom fs5"
    and q: "''conda-packages.txt'' \<notin> dom (files st) \<Longrightarrow>
            (''conda-packages.txt'' \<in> dom fs5 \<longleftrightarrow> fst (list_conda_packages h) \<noteq> [])"
    by (auto simp: dump_environment_def Let_def
        split: sum.splits config_arg.splits if_splits)
  from copy_configs_dom [OF c] have "dom (files st') = dom fs5 \<union> path_name ` set ?paths" .
  with p q show ?thesis by auto
qed

theorem C8_witness:
  "\<not> isl (dump_environment example_host_git ''logs'' (NoConfig :: unit config_arg) None
              \<lparr>files = Map.empty, tb_text = [], warnings = []\<rparr>)
   \<and> fst (list_conda_packages example_host_git) = ''numpy=1.26''
   \<and> ''pip-packages.txt'' \<in> dom (files (projr (dump_environment example_host_git ''logs''
         (NoConfig :: unit config_arg) None \<lparr>files = Map.empty, tb_text = [], warnings = []\<rparr>)))
   \<and> ''conda-packages.txt'' \<in> dom (files (projr (dump_environment example_host_git ''logs''
         (NoConfig :: unit config_arg) None \<lparr>files = Map.empty, tb_text = [], warnings = []\<rparr>)))"
proof -
  let ?r = "dump_environment example_host_git ''logs'' (NoConfig :: unit config_arg) None
              \<lparr>files = Map.empty, tb_text = [], warnings = []\<rparr>"
  have a: "\<not> isl ?r"
    by (simp add: dump_environment_def Let_def sys_eval example_host_git_def)
  then have h: "?r = Inr (projr ?r)" by (cases ?r) simp_all
  have l: "fst (list_conda_packages example_host_git) = ''numpy=1.26''"
    by (simp add: sys_eval example_host_git_def)
  from C8_package_files_written [OF h] a l show ?thesis by simp
qed

end
